theory Spec2Isabelle
  imports Complex_Main
begin

section \<open>The posture analysis engine (src/lib/posture-analysis-engine.ts)\<close>

text \<open>
  The engine is a TypeScript class with one piece of state, the frame history, and two
  public methods, \<open>analyzeSquatPosture\<close> and \<open>analyzeSittingPosture\<close>.  The embedding
  passes the engine object explicitly and returns the updated one.

  A finite JavaScript \<open>number\<close> is modelled as a real, without rounding of the mantissa.
  The source can leave the finite numbers in two places.  One is the division by
  \<open>values.length\<close> in \<open>calculateVariance\<close>; that division is modelled as partial (see
  \<open>js_div\<close>).  The other is the arithmetic of the two score functions, which take any
  issue list: there the model computes with \<open>js_number\<close>, which has the two infinities
  and NaN, and a finite result that is too large for a double becomes an infinity.
  The fields of the records hold finite numbers; a NaN or an infinity as an input is
  outside the model.

  The two sources of non-determinism, \<open>Date.now()\<close> and \<open>Math.random()\<close>, are inputs of
  the model: an \<open>env\<close> holds what they return during one call of the engine.
\<close>

type_synonym number = real

subsection \<open>Data model\<close>

record PostureMetrics =
  neckAngle :: number
  backCurvature :: number
  shoulderAlignment :: number
  hipAlignment :: number
  kneeTracking :: number
  squatDepth :: number
  overallStability :: number

datatype IssueType = Critical | Warning | Minor | Good

record PostureIssue =
  type :: IssueType
  message :: string
  severity :: number
  recommendation :: string
  timestamp :: number

record PostureAnalysis =
  isGoodPosture :: bool
  overallScore :: number
  issues :: "PostureIssue list"
  metrics :: PostureMetrics
  confidence :: number
  recommendations :: "string list"

text \<open>
  The private fields of the class.  \<open>stabilityWindow\<close> is initialised to 5 and never
  assigned again.
\<close>

record PostureAnalysisEngine =
  frameHistory :: "PostureMetrics list"
  stabilityWindow :: nat

definition new_engine :: PostureAnalysisEngine where
  "new_engine = \<lparr>frameHistory = [], stabilityWindow = 5\<rparr>"

text \<open>
  What the outside world answers during one call of the engine: \<open>date_now k\<close> is the
  value of the \<open>k\<close>-th evaluation of \<open>Date.now()\<close> (counted from 0) and \<open>math_random\<close>
  the value of the single evaluation of \<open>Math.random()\<close>.
\<close>

record env =
  date_now :: "nat \<Rightarrow> number"
  math_random :: number

text \<open>
  The source has no \<open>throw\<close>.  The only abnormal outcome the model knows is a number
  that is not finite where the model keeps a finite one: a division whose divisor is
  zero, and an overall score that is an infinity or NaN.  JavaScript carries such a value
  on, the model stops with \<open>NotFinite\<close>.
\<close>

datatype failure = NotFinite

definition js_div :: "number \<Rightarrow> number \<Rightarrow> failure + number" where
  "js_div a b = (if b = 0 then Inl NotFinite else Inr (a / b))"

subsection \<open>Numbers with infinities and NaN\<close>

text \<open>
  The values of a double: a finite number, one of the two infinities, or NaN.  The
  largest finite double is \<open>2 ^ 1024 - 2 ^ 971\<close>; an exact result whose magnitude reaches
  \<open>2 ^ 1024 - 2 ^ 970\<close>, half a unit in the last place beyond it, is rounded to an
  infinity.  The operations follow IEEE 754 as JavaScript does: NaN is contagious, the
  difference of two infinities of the same sign is NaN, and so is zero times an infinity.
\<close>

datatype js_number = Finite number | PosInfinity | NegInfinity | NaN

definition overflow_threshold :: number where
  "overflow_threshold = 2 ^ 1024 - 2 ^ 970"

definition js_round :: "number \<Rightarrow> js_number" where
  "js_round x =
    (if overflow_threshold \<le> x then PosInfinity
     else if x \<le> - overflow_threshold then NegInfinity
     else Finite x)"

fun js_add :: "js_number \<Rightarrow> js_number \<Rightarrow> js_number" where
  "js_add NaN y = NaN"
| "js_add x NaN = NaN"
| "js_add PosInfinity NegInfinity = NaN"
| "js_add NegInfinity PosInfinity = NaN"
| "js_add PosInfinity y = PosInfinity"
| "js_add x PosInfinity = PosInfinity"
| "js_add NegInfinity y = NegInfinity"
| "js_add x NegInfinity = NegInfinity"
| "js_add (Finite a) (Finite b) = js_round (a + b)"

fun js_sub :: "js_number \<Rightarrow> js_number \<Rightarrow> js_number" where
  "js_sub NaN y = NaN"
| "js_sub x NaN = NaN"
| "js_sub PosInfinity PosInfinity = NaN"
| "js_sub NegInfinity NegInfinity = NaN"
| "js_sub PosInfinity y = PosInfinity"
| "js_sub x PosInfinity = NegInfinity"
| "js_sub NegInfinity y = NegInfinity"
| "js_sub x NegInfinity = PosInfinity"
| "js_sub (Finite a) (Finite b) = js_round (a - b)"

text \<open>The sign of an infinity times a number that is neither zero nor NaN.\<close>

definition js_signed_infinity :: "bool \<Rightarrow> js_number" where
  "js_signed_infinity positive = (if positive then PosInfinity else NegInfinity)"

fun js_mul :: "js_number \<Rightarrow> js_number \<Rightarrow> js_number" where
  "js_mul NaN y = NaN"
| "js_mul x NaN = NaN"
| "js_mul (Finite a) (Finite b) = js_round (a * b)"
| "js_mul (Finite a) PosInfinity = (if a = 0 then NaN else js_signed_infinity (0 < a))"
| "js_mul (Finite a) NegInfinity = (if a = 0 then NaN else js_signed_infinity (a < 0))"
| "js_mul PosInfinity (Finite b) = (if b = 0 then NaN else js_signed_infinity (0 < b))"
| "js_mul NegInfinity (Finite b) = (if b = 0 then NaN else js_signed_infinity (b < 0))"
| "js_mul PosInfinity PosInfinity = PosInfinity"
| "js_mul NegInfinity NegInfinity = PosInfinity"
| "js_mul PosInfinity NegInfinity = NegInfinity"
| "js_mul NegInfinity PosInfinity = NegInfinity"

fun Math_min :: "js_number \<Rightarrow> js_number \<Rightarrow> js_number" where
  "Math_min NaN y = NaN"
| "Math_min x NaN = NaN"
| "Math_min NegInfinity y = NegInfinity"
| "Math_min x NegInfinity = NegInfinity"
| "Math_min PosInfinity y = y"
| "Math_min x PosInfinity = x"
| "Math_min (Finite a) (Finite b) = Finite (min a b)"

fun Math_max :: "js_number \<Rightarrow> js_number \<Rightarrow> js_number" where
  "Math_max NaN y = NaN"
| "Math_max x NaN = NaN"
| "Math_max PosInfinity y = PosInfinity"
| "Math_max x PosInfinity = PosInfinity"
| "Math_max NegInfinity y = y"
| "Math_max x NegInfinity = x"
| "Math_max (Finite a) (Finite b) = Finite (max a b)"

text \<open>A value that the model keeps in a field for finite numbers.\<close>

definition finite_number :: "js_number \<Rightarrow> failure + number" where
  "finite_number x = (case x of Finite r \<Rightarrow> Inr r | _ \<Rightarrow> Inl NotFinite)"

subsection \<open>Array helpers\<close>

definition push :: "'a list \<Rightarrow> 'a \<Rightarrow> 'a list" where
  "push xs x = xs @ [x]"

definition shift :: "'a list \<Rightarrow> 'a list" where
  "shift xs = (case xs of [] \<Rightarrow> [] | _ # rest \<Rightarrow> rest)"

text \<open>\<open>values.reduce((a, b) => a + b, 0)\<close>: a left fold from 0.\<close>

definition reduce_add :: "number list \<Rightarrow> number" where
  "reduce_add vs = foldl (\<lambda>a b. a + b) 0 vs"

text \<open>
  \<open>[...new Set(xs)]\<close>: a JavaScript \<open>Set\<close> keeps its elements in the order of their first
  insertion.
\<close>

definition Set_spread :: "'a list \<Rightarrow> 'a list" where
  "Set_spread xs = foldl (\<lambda>seen x. if x \<in> set seen then seen else seen @ [x]) [] xs"

subsection \<open>Metrics derivation\<close>

definition calculateSquatMetrics :: "env \<Rightarrow> PostureMetrics" where
  "calculateSquatMetrics w =
    (let time = date_now w 0;
         squatCycle = sin (time / 4000);
         noise = (math_random w - 0.5) * 0.1;
         kneeTracking' = max 0 (\<bar>squatCycle * 0.3\<bar> + noise * 0.5);
         squatDepth' = max 0 (min 1 (\<bar>squatCycle\<bar> * 0.8 + 0.2));
         backCurvature' = max 0 (squatDepth' * 0.4 + noise * 0.3);
         shoulderAlignment' = \<bar>noise * 0.2\<bar>;
         hipAlignment' = \<bar>noise * 0.15\<bar>;
         overallStability' = max 0.3 (1 - \<bar>noise * 2\<bar>)
     in \<lparr>neckAngle = 0,
         backCurvature = backCurvature',
         shoulderAlignment = shoulderAlignment',
         hipAlignment = hipAlignment',
         kneeTracking = kneeTracking',
         squatDepth = squatDepth',
         overallStability = overallStability'\<rparr>)"

definition calculateSittingMetrics :: "env \<Rightarrow> PostureMetrics" where
  "calculateSittingMetrics w =
    (let time = date_now w 0;
         postureVariation = sin (time / 6000);
         noise = (math_random w - 0.5) * 0.1;
         neckAngle' = max 0 (min 60 (15 + postureVariation * 20 + noise * 15));
         backCurvature' = max 0 (min 1 (0.2 + \<bar>postureVariation\<bar> * 0.4 + noise * 0.3));
         shoulderAlignment' = \<bar>noise * 0.15\<bar>;
         hipAlignment' = \<bar>noise * 0.1\<bar>;
         overallStability' = max 0.5 (1 - \<bar>noise * 1.5\<bar>)
     in \<lparr>neckAngle = neckAngle',
         backCurvature = backCurvature',
         shoulderAlignment = shoulderAlignment',
         hipAlignment = hipAlignment',
         kneeTracking = 0,
         squatDepth = 0,
         overallStability = overallStability'\<rparr>)"

subsection \<open>Stability\<close>

definition calculateVariance :: "number list \<Rightarrow> failure + number" where
  "calculateVariance vs =
    (case js_div (reduce_add vs) (real (length vs)) of
       Inl f \<Rightarrow> Inl f
     | Inr mean \<Rightarrow>
         (let squaredDiffs = map (\<lambda>v. (v - mean) ^ 2) vs
          in js_div (reduce_add squaredDiffs) (real (length vs))))"

definition calculateStability :: "PostureAnalysisEngine \<Rightarrow> failure + number" where
  "calculateStability this =
    (if length (frameHistory this) < 2 then Inr 0.5
     else
       (case calculateVariance (map backCurvature (frameHistory this)) of
          Inl f \<Rightarrow> Inl f
        | Inr vBack \<Rightarrow>
       (case calculateVariance (map shoulderAlignment (frameHistory this)) of
          Inl f \<Rightarrow> Inl f
        | Inr vShoulder \<Rightarrow>
       (case calculateVariance (map overallStability (frameHistory this)) of
          Inl f \<Rightarrow> Inl f
        | Inr vStability \<Rightarrow>
            (let avgVariance = (vBack + vShoulder + vStability) / 3
             in Inr (max 0 (min 1 (1 - avgVariance * 10))))))))"

subsection \<open>Scores and confidence\<close>

definition calculateSquatScore :: "PostureMetrics \<Rightarrow> PostureIssue list \<Rightarrow> js_number" where
  "calculateSquatScore m iss =
    (let score = Finite 100;
         score = foldl (\<lambda>score issue. js_sub score (js_mul (Finite (severity issue)) (Finite 2)))
                   score iss;
         score = (if squatDepth m > 0.7 then js_add score (Finite 10) else score);
         score = (if kneeTracking m < 0.05 then js_add score (Finite 15) else score);
         score = (if backCurvature m < 0.2 then js_add score (Finite 10) else score);
         score = (if overallStability m > 0.8 then js_add score (Finite 5) else score)
     in Math_max (Finite 0) (Math_min (Finite 100) score))"

definition calculateSittingScore :: "PostureMetrics \<Rightarrow> PostureIssue list \<Rightarrow> js_number" where
  "calculateSittingScore m iss =
    (let score = Finite 100;
         score = foldl (\<lambda>score issue. js_sub score (js_mul (Finite (severity issue)) (Finite 2)))
                   score iss;
         score = (if neckAngle m < 15 then js_add score (Finite 15) else score);
         score = (if backCurvature m < 0.2 then js_add score (Finite 15) else score);
         score = (if shoulderAlignment m < 0.05 then js_add score (Finite 10) else score);
         score = (if overallStability m > 0.8 then js_add score (Finite 5) else score)
     in Math_max (Finite 0) (Math_min (Finite 100) score))"

definition calculateConfidence :: "number \<Rightarrow> number \<Rightarrow> number" where
  "calculateConfidence stability frameNumber =
    (let frameConfidence = min 1 (frameNumber / 10);
         stabilityConfidence = stability
     in (frameConfidence * 0.4 + stabilityConfidence * 0.6) * 0.9 + 0.1)"

subsection \<open>The rules\<close>

text \<open>
  The rule blocks of the two public methods (lines 45 to 110 and 138 to 213), each as a
  function of the metrics and the stability.  Their state is the pair of the arrays
  \<open>issues\<close> and \<open>recommendations\<close>, both empty at the start.

  \<open>issues_push\<close> is \<open>issues.push({type, message, severity, recommendation, timestamp:
  Date.now()})\<close>.  Every pushed issue reads the clock once, and the metrics derivation has
  read it once before: when \<open>n\<close> issues have been pushed, the next \<open>Date.now()\<close> is
  evaluation number \<open>n + 1\<close> of the call.
\<close>

type_synonym rule_state = "PostureIssue list \<times> string list"

definition issues_push ::
  "env \<Rightarrow> IssueType \<Rightarrow> string \<Rightarrow> number \<Rightarrow> string \<Rightarrow> rule_state \<Rightarrow> rule_state" where
  "issues_push w ty msg sev rec st =
    (push (fst st)
       \<lparr>type = ty, message = msg, severity = sev, recommendation = rec,
        timestamp = date_now w (Suc (length (fst st)))\<rparr>,
     snd st)"

definition recommendations_push :: "string \<Rightarrow> rule_state \<Rightarrow> rule_state" where
  "recommendations_push r st = (fst st, push (snd st) r)"

definition squatRules :: "env \<Rightarrow> PostureMetrics \<Rightarrow> number \<Rightarrow> rule_state" where
  "squatRules w m stability =
    (let st = ([], []);
         st = (if kneeTracking m > 0.15 then
                 recommendations_push
                   ''Focus on knee alignment - imagine pushing the floor apart with your feet''
                   (issues_push w Critical
                    ''DANGER: Knee valgus detected - high injury risk!''
                    9
                    ''Keep knees aligned over toes. Strengthen glutes and hip abductors.'' st)
               else st);
         st = (if backCurvature m > 0.4 then
                 recommendations_push
                   ''Improve ankle flexibility with calf stretches''
                   (issues_push w Critical
                    ''Excessive forward lean - spine at risk''
                    8
                    ''Keep chest up and core engaged. Work on ankle mobility.'' st)
               else st);
         st = (if squatDepth m < 0.3 then
                 recommendations_push
                   ''Practice bodyweight squats to improve depth''
                   (issues_push w Warning
                    ''Insufficient squat depth for optimal benefits''
                    6
                    ''Aim to get hips below knee level. Work on hip and ankle mobility.'' st)
               else st);
         st = (if shoulderAlignment m > 0.1 then
                 issues_push w Warning
                    ''Uneven shoulder position''
                    5
                    ''Check for muscle imbalances. Ensure even weight distribution.'' st
               else st);
         st = (if stability < 0.6 then
                 issues_push w Minor
                    ''Movement instability detected''
                    3
                    ''Focus on controlled movement. Strengthen core and stabilizer muscles.'' st
               else st);
         st = (if squatDepth m > 0.7 \<and> kneeTracking m < 0.05 \<and> backCurvature m < 0.2 then
                 issues_push w Good
                    ''Excellent squat form! Great depth and alignment.''
                    0
                    ''Maintain this form. Consider adding weight progression.'' st
               else st)
     in st)"

definition sittingRules :: "env \<Rightarrow> PostureMetrics \<Rightarrow> number \<Rightarrow> rule_state" where
  "sittingRules w m stability =
    (let st = ([], []);
         st = (if neckAngle m > 35 then
                 recommendations_push
                   ''Position screen at eye level to reduce neck strain''
                   (issues_push w Critical
                    ''Severe forward head posture - tech neck risk!''
                    9
                    ''Adjust monitor height. Strengthen deep neck flexors.'' st)
               else st);
         st = (if backCurvature m > 0.5 then
                 recommendations_push
                   ''Use a lumbar support cushion''
                   (issues_push w Critical
                    ''Excessive slouching - spinal health at risk''
                    8
                    ''Sit back in chair with lumbar support. Strengthen core muscles.'' st)
               else st);
         st = (if neckAngle m > 20 \<and> neckAngle m \<le> 35 then
                 issues_push w Warning
                    ''Moderate forward head posture detected''
                    6
                    ''Adjust screen position and take regular breaks.'' st
               else st);
         st = (if shoulderAlignment m > 0.08 then
                 recommendations_push
                   ''Adjust chair height and armrest position''
                   (issues_push w Warning
                    ''Shoulder imbalance - check your workspace setup''
                    5
                    ''Ensure keyboard and mouse are at equal height.'' st)
               else st);
         st = (if backCurvature m > 0.25 \<and> backCurvature m \<le> 0.5 then
                 issues_push w Warning
                    ''Mild slouching detected''
                    4
                    ''Engage core muscles and sit tall.'' st
               else st);
         st = (if stability < 0.7 then
                 issues_push w Minor
                    ''Frequent position changes - consider ergonomic adjustments''
                    2
                    ''Take regular movement breaks every 30 minutes.'' st
               else st);
         st = (if neckAngle m < 15 \<and> backCurvature m < 0.2 \<and> shoulderAlignment m < 0.05 then
                 issues_push w Good
                    ''Excellent sitting posture! Well aligned spine and neck.''
                    0
                    ''Maintain this posture. Take breaks to prevent stiffness.'' st
               else st)
     in st)"

subsection \<open>The public methods\<close>

text \<open>
  \<open>storeFrame\<close> is the block that both methods open with: push the metrics on the
  history and shift once when the history is longer than the window.
\<close>

definition storeFrame :: "PostureAnalysisEngine \<Rightarrow> PostureMetrics \<Rightarrow> PostureAnalysisEngine" where
  "storeFrame this m =
    (let this = this\<lparr>frameHistory := push (frameHistory this) m\<rparr>
     in if length (frameHistory this) > stabilityWindow this
        then this\<lparr>frameHistory := shift (frameHistory this)\<rparr>
        else this)"

definition analyzeSquatPosture ::
  "PostureAnalysisEngine \<Rightarrow> 'l list \<Rightarrow> number \<Rightarrow> env \<Rightarrow> failure + PostureAnalysis \<times> PostureAnalysisEngine" where
  "analyzeSquatPosture this landmarks frameNumber w =
    (let m = calculateSquatMetrics w;
         this = storeFrame this m
     in case calculateStability this of
          Inl f \<Rightarrow> Inl f
        | Inr stability \<Rightarrow>
            (let st = squatRules w m stability
             in case finite_number (calculateSquatScore m (fst st)) of
                  Inl f \<Rightarrow> Inl f
                | Inr overallScore' \<Rightarrow>
                    (let isGoodPosture' =
                           (length (filter (\<lambda>i. type i = Critical) (fst st)) = 0 \<and> overallScore' > 70)
                     in Inr (\<lparr>isGoodPosture = isGoodPosture',
                              overallScore = overallScore',
                              issues = fst st,
                              metrics = m,
                              confidence = calculateConfidence stability frameNumber,
                              recommendations = Set_spread (snd st)\<rparr>, this))))"

definition analyzeSittingPosture ::
  "PostureAnalysisEngine \<Rightarrow> 'l list \<Rightarrow> number \<Rightarrow> env \<Rightarrow> failure + PostureAnalysis \<times> PostureAnalysisEngine" where
  "analyzeSittingPosture this landmarks frameNumber w =
    (let m = calculateSittingMetrics w;
         this = storeFrame this m
     in case calculateStability this of
          Inl f \<Rightarrow> Inl f
        | Inr stability \<Rightarrow>
            (let st = sittingRules w m stability
             in case finite_number (calculateSittingScore m (fst st)) of
                  Inl f \<Rightarrow> Inl f
                | Inr overallScore' \<Rightarrow>
                    (let isGoodPosture' =
                           (length (filter (\<lambda>i. type i = Critical) (fst st)) = 0 \<and> overallScore' > 70)
                     in Inr (\<lparr>isGoodPosture = isGoodPosture',
                              overallScore = overallScore',
                              issues = fst st,
                              metrics = m,
                              confidence = calculateConfidence stability frameNumber,
                              recommendations = Set_spread (snd st)\<rparr>, this))))"

subsection \<open>Running the engine\<close>

text \<open>
  A client calls the two public methods in any order on one engine object.  A call is
  recorded with its arguments and with the environment it ran in; \<open>run\<close> threads the
  engine through a list of calls and \<open>derived_metrics\<close> names the metrics vector that a
  call derives.
\<close>

datatype 'l call =
    AnalyzeSquat "'l list" number env
  | AnalyzeSitting "'l list" number env

fun derived_metrics :: "'l call \<Rightarrow> PostureMetrics" where
  "derived_metrics (AnalyzeSquat landmarks frameNumber w) = calculateSquatMetrics w"
| "derived_metrics (AnalyzeSitting landmarks frameNumber w) = calculateSittingMetrics w"

fun call_engine :: "PostureAnalysisEngine \<Rightarrow> 'l call \<Rightarrow> failure + PostureAnalysisEngine" where
  "call_engine this (AnalyzeSquat landmarks frameNumber w) =
     (case analyzeSquatPosture this landmarks frameNumber w of
        Inl f \<Rightarrow> Inl f
      | Inr r \<Rightarrow> Inr (snd r))"
| "call_engine this (AnalyzeSitting landmarks frameNumber w) =
     (case analyzeSittingPosture this landmarks frameNumber w of
        Inl f \<Rightarrow> Inl f
      | Inr r \<Rightarrow> Inr (snd r))"

fun run :: "PostureAnalysisEngine \<Rightarrow> 'l call list \<Rightarrow> failure + PostureAnalysisEngine" where
  "run this [] = Inr this"
| "run this (c # cs) =
     (case call_engine this c of
        Inl f \<Rightarrow> Inl f
      | Inr this' \<Rightarrow> run this' cs)"

text \<open>The metrics vector of a result, when there is one.\<close>

definition metrics_of :: "failure + PostureAnalysis \<times> PostureAnalysisEngine \<Rightarrow> PostureMetrics option" where
  "metrics_of r = (case r of Inl f \<Rightarrow> None | Inr p \<Rightarrow> Some (metrics (fst p)))"

subsection \<open>The stability estimator in the words of the specification\<close>

text \<open>
  The specification describes the estimator with the variance of a list of samples and
  with a clamp.  Two variances are in use for a list of \<open>n\<close> samples with mean \<open>\<mu>\<close>: the
  sample variance divides the sum of the squared deviations from \<open>\<mu>\<close> by \<open>n - 1\<close>, the
  population variance divides it by \<open>n\<close>.  \<open>spec_stability\<close> is the estimator as the
  specification words it, with the sample variance.
\<close>

definition spec_mean :: "number list \<Rightarrow> number" where
  "spec_mean xs = sum_list xs / real (length xs)"

definition sample_variance :: "number list \<Rightarrow> number" where
  "sample_variance xs = (\<Sum>x\<leftarrow>xs. (x - spec_mean xs) ^ 2) / (real (length xs) - 1)"

definition population_variance :: "number list \<Rightarrow> number" where
  "population_variance xs = (\<Sum>x\<leftarrow>xs. (x - spec_mean xs) ^ 2) / real (length xs)"

definition spec_clamp :: "number \<Rightarrow> number \<Rightarrow> number \<Rightarrow> number" where
  "spec_clamp x lo hi = (if x < lo then lo else if hi < x then hi else x)"

definition spec_stability :: "PostureMetrics list \<Rightarrow> number" where
  "spec_stability h =
    (if length h < 2 then 0.5
     else spec_clamp
            (1 - (sample_variance (map backCurvature h)
                  + sample_variance (map shoulderAlignment h)
                  + sample_variance (map overallStability h)) / 3 * 10)
            0 1)"

subsection \<open>Concrete inputs\<close>

text \<open>
  Two environments.  In \<open>env_rest\<close> the clock reads 0 and the random draw is one half, so
  the simulated signal and the noise are both 0.  In \<open>env_peak\<close> the clock reads
  \<open>2000 \<pi>\<close>, where the squat cycle \<open>sin (time / 4000)\<close> is at its peak 1.
\<close>

definition env_rest :: env where
  "env_rest = \<lparr>date_now = (\<lambda>k. 0), math_random = 1 / 2\<rparr>"

definition env_peak :: env where
  "env_peak = \<lparr>date_now = (\<lambda>k. 2000 * pi), math_random = 1 / 2\<rparr>"

definition metrics_rest :: PostureMetrics where
  "metrics_rest =
    \<lparr>neckAngle = 0, backCurvature = 2 / 25, shoulderAlignment = 0, hipAlignment = 0,
     kneeTracking = 0, squatDepth = 1 / 5, overallStability = 1\<rparr>"

definition metrics_peak :: PostureMetrics where
  "metrics_peak =
    \<lparr>neckAngle = 0, backCurvature = 2 / 5, shoulderAlignment = 0, hipAlignment = 0,
     kneeTracking = 3 / 10, squatDepth = 1, overallStability = 1\<rparr>"

definition issue_of_severity :: "number \<Rightarrow> PostureIssue" where
  "issue_of_severity sev =
    \<lparr>type = Warning, message = ''m'', severity = sev, recommendation = ''r'', timestamp = 0\<rparr>"

text \<open>
  Two issues whose severities are the double \<open>2 ^ 1023\<close> and its negative: each is
  finite, and twice each is not.
\<close>

definition overflowing_issues :: "PostureIssue list" where
  "overflowing_issues = [issue_of_severity (2 ^ 1023), issue_of_severity (- (2 ^ 1023))]"

text \<open>
  Six calls on one engine, an engine whose history holds the frames of two calls, and
  an engine whose history is full.
\<close>

definition two_frames :: PostureAnalysisEngine where
  "two_frames = \<lparr>frameHistory = [metrics_rest, metrics_peak], stabilityWindow = 5\<rparr>"

definition six_calls :: "unit call list" where
  "six_calls =
    [AnalyzeSquat [] 1 env_rest, AnalyzeSquat [] 2 env_peak, AnalyzeSquat [] 3 env_peak,
     AnalyzeSquat [] 4 env_rest, AnalyzeSquat [] 5 env_rest, AnalyzeSquat [] 6 env_peak]"

definition full_engine :: PostureAnalysisEngine where
  "full_engine =
    \<lparr>frameHistory = [metrics_rest, metrics_peak, metrics_peak, metrics_rest, metrics_rest],
     stabilityWindow = 5\<rparr>"

section \<open>Properties\<close>

subsection \<open>Helper lemmas\<close>

lemma foldl_add_sum_list: "foldl (\<lambda>a b. a + b) a vs = a + sum_list vs" for a :: real
  by (induction vs arbitrary: a) simp_all

lemma reduce_add_sum_list: "reduce_add vs = sum_list vs"
  by (simp add: reduce_add_def foldl_add_sum_list)

lemma calculateVariance_nonempty:
  "vs \<noteq> [] \<Longrightarrow> calculateVariance vs = Inr (population_variance vs)"
  by (simp add: calculateVariance_def js_div_def reduce_add_sum_list population_variance_def spec_mean_def)

text \<open>The division is not a stub: on an empty list of values the variance is not finite.\<close>

lemma calculateVariance_empty: "calculateVariance [] = Inl NotFinite"
  by (simp add: calculateVariance_def js_div_def)

lemma clamp_max_min: "max 0 (min 1 x) = spec_clamp x 0 1"
  by (simp add: spec_clamp_def max_def min_def)

lemma calculateStability_short:
  "length (frameHistory this) < 2 \<Longrightarrow> calculateStability this = Inr (1 / 2)"
  by (simp add: calculateStability_def)

lemma calculateStability_long:
  assumes "\<not> length (frameHistory this) < 2"
  shows "calculateStability this =
     Inr (spec_clamp (1 - (population_variance (map backCurvature (frameHistory this))
                     + population_variance (map shoulderAlignment (frameHistory this))
                     + population_variance (map overallStability (frameHistory this))) / 3 * 10) 0 1)"
proof -
  from assms have "frameHistory this \<noteq> []" by auto
  with assms show ?thesis
    by (simp add: calculateStability_def calculateVariance_nonempty clamp_max_min)
qed

lemma calculateStability_range:
  "\<exists>s. calculateStability this = Inr s \<and> 0 \<le> s \<and> s \<le> 1"
proof (cases "length (frameHistory this) < 2")
  case True
  then have "calculateStability this = Inr (1 / 2)" by (rule calculateStability_short)
  then show ?thesis by (intro exI [of _ "1 / 2"]) simp
next
  case False
  then have "calculateStability this =
     Inr (spec_clamp (1 - (population_variance (map backCurvature (frameHistory this))
                     + population_variance (map shoulderAlignment (frameHistory this))
                     + population_variance (map overallStability (frameHistory this))) / 3 * 10) 0 1)"
    by (rule calculateStability_long)
  moreover have "0 \<le> spec_clamp x 0 1 \<and> spec_clamp x 0 1 \<le> 1" for x
    by (simp add: spec_clamp_def)
  ultimately show ?thesis by blast
qed

lemma fst_issues_push:
  "fst (issues_push w ty msg sev rec st) =
     fst st @ [\<lparr>type = ty, message = msg, severity = sev, recommendation = rec,
        timestamp = date_now w (Suc (length (fst st)))\<rparr>]"
  by (simp add: issues_push_def push_def)

lemma snd_issues_push: "snd (issues_push w ty msg sev rec st) = snd st"
  by (simp add: issues_push_def)

lemma fst_recommendations_push: "fst (recommendations_push r st) = fst st"
  by (simp add: recommendations_push_def)

lemma snd_recommendations_push: "snd (recommendations_push r st) = snd st @ [r]"
  by (simp add: recommendations_push_def push_def)

lemmas push_simps =
  fst_issues_push snd_issues_push fst_recommendations_push snd_recommendations_push

text \<open>Rounding, and where NaN can and cannot come from.\<close>

lemma overflow_threshold_large: "10 ^ 6 < overflow_threshold"
  by (simp add: overflow_threshold_def)

lemma js_round_finite: "\<bar>x\<bar> < overflow_threshold \<Longrightarrow> js_round x = Finite x"
  by (auto simp: js_round_def)

lemma js_round_small: "\<bar>x\<bar> \<le> 10 ^ 6 \<Longrightarrow> js_round x = Finite x"
  using overflow_threshold_large by (intro js_round_finite) linarith

lemma js_round_not_NaN: "js_round x \<noteq> NaN"
  by (simp add: js_round_def)

lemma js_sub_Finite_not_NaN: "acc \<noteq> NaN \<Longrightarrow> js_sub acc (Finite d) \<noteq> NaN"
  by (cases acc) (simp_all add: js_round_not_NaN)

lemma js_add_Finite_not_NaN: "acc \<noteq> NaN \<Longrightarrow> js_add acc (Finite d) \<noteq> NaN"
  by (cases acc) (simp_all add: js_round_not_NaN)

lemma foldl_deduct_not_NaN:
  assumes "\<forall>i \<in> set iss. \<bar>severity i * 2\<bar> < overflow_threshold" and "acc \<noteq> NaN"
  shows "foldl (\<lambda>score issue. js_sub score (js_mul (Finite (severity issue)) (Finite 2))) acc iss \<noteq> NaN"
  using assms
proof (induction iss arbitrary: acc)
  case Nil
  then show ?case by simp
next
  case (Cons i iss)
  from Cons.prems have "js_mul (Finite (severity i)) (Finite 2) = Finite (severity i * 2)"
    by (simp add: js_round_finite)
  with Cons.prems have "js_sub acc (js_mul (Finite (severity i)) (Finite 2)) \<noteq> NaN"
    by (simp add: js_sub_Finite_not_NaN)
  with Cons.IH Cons.prems show ?case by simp
qed

text \<open>The clamp \<open>Math.max(0, Math.min(100, score))\<close> on each kind of value.\<close>

lemma clamp_cases:
  "Math_max (Finite 0) (Math_min (Finite 100) x) = NaN \<and> x = NaN \<or>
   (\<exists>r. Math_max (Finite 0) (Math_min (Finite 100) x) = Finite r \<and> 0 \<le> r \<and> r \<le> 100)"
  by (cases x) simp_all

lemma clamp_not_NaN: "x \<noteq> NaN \<Longrightarrow> Math_max (Finite 0) (Math_min (Finite 100) x) \<noteq> NaN"
  by (cases x) simp_all

lemma bonus_not_NaN: "acc \<noteq> NaN \<Longrightarrow> (if c then js_add acc (Finite d) else acc) \<noteq> NaN"
  by (simp add: js_add_Finite_not_NaN)

lemma calculateSquatScore_cases:
  "calculateSquatScore m iss = NaN \<or>
   (\<exists>r. calculateSquatScore m iss = Finite r \<and> 0 \<le> r \<and> r \<le> 100)"
  unfolding calculateSquatScore_def Let_def using clamp_cases by blast

lemma calculateSittingScore_cases:
  "calculateSittingScore m iss = NaN \<or>
   (\<exists>r. calculateSittingScore m iss = Finite r \<and> 0 \<le> r \<and> r \<le> 100)"
  unfolding calculateSittingScore_def Let_def using clamp_cases by blast

lemma calculateSquatScore_range:
  assumes "\<forall>i \<in> set iss. \<bar>severity i * 2\<bar> < overflow_threshold"
  shows "\<exists>r. calculateSquatScore m iss = Finite r \<and> 0 \<le> r \<and> r \<le> 100"
proof -
  have "foldl (\<lambda>score issue. js_sub score (js_mul (Finite (severity issue)) (Finite 2)))
          (Finite 100) iss \<noteq> NaN"
    using assms by (intro foldl_deduct_not_NaN) simp_all
  then have "calculateSquatScore m iss \<noteq> NaN"
    unfolding calculateSquatScore_def Let_def
    by (intro clamp_not_NaN bonus_not_NaN)
  with calculateSquatScore_cases [of m iss] show ?thesis by blast
qed

lemma calculateSittingScore_range:
  assumes "\<forall>i \<in> set iss. \<bar>severity i * 2\<bar> < overflow_threshold"
  shows "\<exists>r. calculateSittingScore m iss = Finite r \<and> 0 \<le> r \<and> r \<le> 100"
proof -
  have "foldl (\<lambda>score issue. js_sub score (js_mul (Finite (severity issue)) (Finite 2)))
          (Finite 100) iss \<noteq> NaN"
    using assms by (intro foldl_deduct_not_NaN) simp_all
  then have "calculateSittingScore m iss \<noteq> NaN"
    unfolding calculateSittingScore_def Let_def
    by (intro clamp_not_NaN bonus_not_NaN)
  with calculateSittingScore_cases [of m iss] show ?thesis by blast
qed

text \<open>The severities of the issues that the rules push are the constants of the source.\<close>

lemma severity_small: "\<bar>x\<bar> \<le> 10 \<Longrightarrow> \<bar>x * 2\<bar> < overflow_threshold" for x :: real
  using overflow_threshold_large by (simp add: abs_mult)

lemma squatRules_severity:
  "\<forall>i \<in> set (fst (squatRules w m s)). \<bar>severity i * 2\<bar> < overflow_threshold"
proof -
  have "map severity (fst (squatRules w m s)) =
     (if kneeTracking m > 0.15 then [9] else []) @
     (if backCurvature m > 0.4 then [8] else []) @
     (if squatDepth m < 0.3 then [6] else []) @
     (if shoulderAlignment m > 0.1 then [5] else []) @
     (if s < 0.6 then [3] else []) @
     (if squatDepth m > 0.7 \<and> kneeTracking m < 0.05 \<and> backCurvature m < 0.2 then [0] else [])"
    by (simp add: squatRules_def Let_def push_simps)
  then have "\<forall>x \<in> set (map severity (fst (squatRules w m s))). \<bar>x\<bar> \<le> 10"
    by auto
  then show ?thesis by (simp add: severity_small)
qed

lemma sittingRules_severity:
  "\<forall>i \<in> set (fst (sittingRules w m s)). \<bar>severity i * 2\<bar> < overflow_threshold"
proof -
  have "map severity (fst (sittingRules w m s)) =
     (if neckAngle m > 35 then [9] else []) @
     (if backCurvature m > 0.5 then [8] else []) @
     (if neckAngle m > 20 \<and> neckAngle m \<le> 35 then [6] else []) @
     (if shoulderAlignment m > 0.08 then [5] else []) @
     (if backCurvature m > 0.25 \<and> backCurvature m \<le> 0.5 then [4] else []) @
     (if s < 0.7 then [2] else []) @
     (if neckAngle m < 15 \<and> backCurvature m < 0.2 \<and> shoulderAlignment m < 0.05 then [0] else [])"
    by (simp add: sittingRules_def Let_def push_simps)
  then have "\<forall>x \<in> set (map severity (fst (sittingRules w m s))). \<bar>x\<bar> \<le> 10"
    by auto
  then show ?thesis by (simp add: severity_small)
qed

text \<open>What each public method returns, field by field.\<close>

lemma analyzeSquatPosture_result:
  "\<exists>s a. calculateStability (storeFrame this (calculateSquatMetrics w)) = Inr s \<and> 0 \<le> s \<and> s \<le> 1 \<and>
     analyzeSquatPosture this landmarks frameNumber w = Inr (a, storeFrame this (calculateSquatMetrics w)) \<and>
     isGoodPosture a = (length (filter (\<lambda>i. type i = Critical) (issues a)) = 0 \<and> overallScore a > 70) \<and>
     calculateSquatScore (metrics a) (issues a) = Finite (overallScore a) \<and>
     0 \<le> overallScore a \<and> overallScore a \<le> 100 \<and>
     issues a = fst (squatRules w (metrics a) s) \<and>
     metrics a = calculateSquatMetrics w \<and>
     confidence a = calculateConfidence s frameNumber \<and>
     recommendations a = Set_spread (snd (squatRules w (metrics a) s))"
proof -
  obtain s where s: "calculateStability (storeFrame this (calculateSquatMetrics w)) = Inr s" "0 \<le> s" "s \<le> 1"
    using calculateStability_range by blast
  obtain r where r: "calculateSquatScore (calculateSquatMetrics w)
      (fst (squatRules w (calculateSquatMetrics w) s)) = Finite r" "0 \<le> r" "r \<le> 100"
    using calculateSquatScore_range [OF squatRules_severity] by blast
  from s r show ?thesis by (simp add: analyzeSquatPosture_def Let_def finite_number_def)
qed

lemma analyzeSittingPosture_result:
  "\<exists>s a. calculateStability (storeFrame this (calculateSittingMetrics w)) = Inr s \<and> 0 \<le> s \<and> s \<le> 1 \<and>
     analyzeSittingPosture this landmarks frameNumber w = Inr (a, storeFrame this (calculateSittingMetrics w)) \<and>
     isGoodPosture a = (length (filter (\<lambda>i. type i = Critical) (issues a)) = 0 \<and> overallScore a > 70) \<and>
     calculateSittingScore (metrics a) (issues a) = Finite (overallScore a) \<and>
     0 \<le> overallScore a \<and> overallScore a \<le> 100 \<and>
     issues a = fst (sittingRules w (metrics a) s) \<and>
     metrics a = calculateSittingMetrics w \<and>
     confidence a = calculateConfidence s frameNumber \<and>
     recommendations a = Set_spread (snd (sittingRules w (metrics a) s))"
proof -
  obtain s where s: "calculateStability (storeFrame this (calculateSittingMetrics w)) = Inr s" "0 \<le> s" "s \<le> 1"
    using calculateStability_range by blast
  obtain r where r: "calculateSittingScore (calculateSittingMetrics w)
      (fst (sittingRules w (calculateSittingMetrics w) s)) = Finite r" "0 \<le> r" "r \<le> 100"
    using calculateSittingScore_range [OF sittingRules_severity] by blast
  from s r show ?thesis by (simp add: analyzeSittingPosture_def Let_def finite_number_def)
qed

lemma calculateConfidence_formula:
  "calculateConfidence stability frameNumber =
     (min 1 (frameNumber / 10) * 0.4 + stability * 0.6) * 0.9 + 0.1"
  by (simp add: calculateConfidence_def Let_def)

text \<open>The engine at rest and at the peak of the squat cycle, evaluated.\<close>

lemma calculateSquatMetrics_rest: "calculateSquatMetrics env_rest = metrics_rest"
  by (simp add: calculateSquatMetrics_def env_rest_def metrics_rest_def Let_def)

lemma calculateSquatMetrics_peak: "calculateSquatMetrics env_peak = metrics_peak"
  by (simp add: calculateSquatMetrics_def env_peak_def metrics_peak_def Let_def)

lemma storeFrame_new: "storeFrame new_engine m = \<lparr>frameHistory = [m], stabilityWindow = 5\<rparr>"
  by (simp add: storeFrame_def new_engine_def push_def Let_def)

lemma squatRules_rest:
  "squatRules env_rest metrics_rest (1 / 2) =
    ([\<lparr>type = Warning, message = ''Insufficient squat depth for optimal benefits'', severity = 6,
       recommendation = ''Aim to get hips below knee level. Work on hip and ankle mobility.'',
       timestamp = 0\<rparr>,
      \<lparr>type = Minor, message = ''Movement instability detected'', severity = 3,
       recommendation = ''Focus on controlled movement. Strengthen core and stabilizer muscles.'',
       timestamp = 0\<rparr>],
     [''Practice bodyweight squats to improve depth''])"
  by (simp add: squatRules_def metrics_rest_def env_rest_def Let_def
      issues_push_def recommendations_push_def push_def)

lemma squatRules_peak:
  "squatRules env_peak metrics_peak (1 / 2) =
    ([\<lparr>type = Critical, message = ''DANGER: Knee valgus detected - high injury risk!'', severity = 9,
       recommendation = ''Keep knees aligned over toes. Strengthen glutes and hip abductors.'',
       timestamp = 2000 * pi\<rparr>,
      \<lparr>type = Minor, message = ''Movement instability detected'', severity = 3,
       recommendation = ''Focus on controlled movement. Strengthen core and stabilizer muscles.'',
       timestamp = 2000 * pi\<rparr>],
     [''Focus on knee alignment - imagine pushing the floor apart with your feet''])"
  by (simp add: squatRules_def metrics_peak_def env_peak_def Let_def
      issues_push_def recommendations_push_def push_def)

lemma analyzeSquatPosture_rest:
  "analyzeSquatPosture new_engine landmarks 1 env_rest =
     Inr (\<lparr>isGoodPosture = True,
           overallScore = 100,
           issues = fst (squatRules env_rest metrics_rest (1 / 2)),
           metrics = metrics_rest,
           confidence = 203 / 500,
           recommendations = [''Practice bodyweight squats to improve depth'']\<rparr>,
          \<lparr>frameHistory = [metrics_rest], stabilityWindow = 5\<rparr>)"
proof -
  have score: "calculateSquatScore metrics_rest (fst (squatRules env_rest metrics_rest (1 / 2))) = Finite 100"
    unfolding squatRules_rest
    by (simp add: calculateSquatScore_def metrics_rest_def Let_def js_round_small)
  have crit: "filter (\<lambda>i. type i = Critical) (fst (squatRules env_rest metrics_rest (1 / 2))) = []"
    by (simp add: squatRules_rest)
  have recs: "Set_spread (snd (squatRules env_rest metrics_rest (1 / 2))) =
      [''Practice bodyweight squats to improve depth'']"
    by (simp add: squatRules_rest Set_spread_def)
  have stab: "calculateStability \<lparr>frameHistory = [metrics_rest], stabilityWindow = 5\<rparr> = Inr (1 / 2)"
    by (simp add: calculateStability_short)
  have conf: "calculateConfidence (1 / 2) 1 = 203 / 500"
    by (simp add: calculateConfidence_formula)
  show ?thesis
    by (simp add: analyzeSquatPosture_def Let_def calculateSquatMetrics_rest storeFrame_new
        stab score crit recs conf finite_number_def)
qed

lemma analyzeSquatPosture_peak:
  "analyzeSquatPosture new_engine landmarks 1 env_peak =
     Inr (\<lparr>isGoodPosture = False,
           overallScore = 91,
           issues = fst (squatRules env_peak metrics_peak (1 / 2)),
           metrics = metrics_peak,
           confidence = 203 / 500,
           recommendations = [''Focus on knee alignment - imagine pushing the floor apart with your feet'']\<rparr>,
          \<lparr>frameHistory = [metrics_peak], stabilityWindow = 5\<rparr>)"
proof -
  have score: "calculateSquatScore metrics_peak (fst (squatRules env_peak metrics_peak (1 / 2))) = Finite 91"
    unfolding squatRules_peak
    by (simp add: calculateSquatScore_def metrics_peak_def Let_def js_round_small)
  have crit: "filter (\<lambda>i. type i = Critical) (fst (squatRules env_peak metrics_peak (1 / 2))) \<noteq> []"
    by (simp add: squatRules_peak)
  have recs: "Set_spread (snd (squatRules env_peak metrics_peak (1 / 2))) =
      [''Focus on knee alignment - imagine pushing the floor apart with your feet'']"
    by (simp add: squatRules_peak Set_spread_def)
  have stab: "calculateStability \<lparr>frameHistory = [metrics_peak], stabilityWindow = 5\<rparr> = Inr (1 / 2)"
    by (simp add: calculateStability_short)
  have conf: "calculateConfidence (1 / 2) 1 = 203 / 500"
    by (simp add: calculateConfidence_formula)
  show ?thesis
    by (simp add: analyzeSquatPosture_def Let_def calculateSquatMetrics_peak storeFrame_new
        stab score crit recs conf finite_number_def)
qed

subsection \<open>The overall score\<close>

text \<open>
  Claim C1, as stated: for every metrics vector and every issue list, the score returned
  by \<open>calculateSquatScore\<close> and by \<open>calculateSittingScore\<close> lies between 0 and 100.  The
  clamp does not hold for every issue list.  For the two severities \<open>2 ^ 1023\<close> and
  \<open>- (2 ^ 1023)\<close> the first deduction is \<open>2 ^ 1024\<close>, which is the positive infinity, and
  the score becomes the negative infinity; the second deduction is the negative
  infinity, and the difference of the two is NaN.  The bonuses keep it, and
  \<open>Math.min\<close> and \<open>Math.max\<close> return NaN for NaN.
\<close>

theorem overflowing_score_counterexample:
  "calculateSquatScore metrics_rest overflowing_issues = NaN \<and>
   calculateSittingScore metrics_rest overflowing_issues = NaN"
proof
  have pos: "js_mul (Finite (2 ^ 1023)) (Finite 2) = PosInfinity"
    by (simp add: js_round_def overflow_threshold_def)
  have neg: "js_mul (Finite (- (2 ^ 1023))) (Finite 2) = NegInfinity"
    by (simp add: js_round_def overflow_threshold_def)
  have acc: "foldl (\<lambda>score issue. js_sub score (js_mul (Finite (severity issue)) (Finite 2)))
               (Finite 100) overflowing_issues = NaN"
    by (simp only: overflowing_issues_def issue_of_severity_def foldl_Cons foldl_Nil
        PostureIssue.select_convs pos neg js_sub.simps)
  show "calculateSquatScore metrics_rest overflowing_issues = NaN"
    unfolding calculateSquatScore_def Let_def acc by simp
  show "calculateSittingScore metrics_rest overflowing_issues = NaN"
    unfolding calculateSittingScore_def Let_def acc by simp
qed

text \<open>
  Claim C1, amended: for every metrics vector and every issue list whose severities are
  finite and stay finite when doubled (every severity of the 0 to 10 scale does, and so
  does every severity that the engine assigns), the score returned by
  \<open>calculateSquatScore\<close> and by \<open>calculateSittingScore\<close> lies between 0 and 100, also
  where 100 minus the deductions plus the bonuses leaves that range or overflows.  For
  any other issue list with finite severities the score lies in that range or is NaN.
  The \<open>overallScore\<close> of every analysis that \<open>analyzeSquatPosture\<close> and
  \<open>analyzeSittingPosture\<close> return lies between 0 and 100.
\<close>

theorem overallScore_in_range:
  "((\<forall>i \<in> set iss. \<bar>severity i * 2\<bar> < overflow_threshold) \<longrightarrow>
      (\<exists>r. calculateSquatScore m iss = Finite r \<and> 0 \<le> r \<and> r \<le> 100) \<and>
      (\<exists>r. calculateSittingScore m iss = Finite r \<and> 0 \<le> r \<and> r \<le> 100)) \<and>
   (calculateSquatScore m iss = NaN \<or>
      (\<exists>r. calculateSquatScore m iss = Finite r \<and> 0 \<le> r \<and> r \<le> 100)) \<and>
   (calculateSittingScore m iss = NaN \<or>
      (\<exists>r. calculateSittingScore m iss = Finite r \<and> 0 \<le> r \<and> r \<le> 100)) \<and>
   (\<exists>a e. analyzeSquatPosture this landmarks frameNumber w = Inr (a, e) \<and>
           0 \<le> overallScore a \<and> overallScore a \<le> 100) \<and>
   (\<exists>a e. analyzeSittingPosture this landmarks frameNumber w = Inr (a, e) \<and>
           0 \<le> overallScore a \<and> overallScore a \<le> 100)"
proof (intro conjI impI)
  assume "\<forall>i \<in> set iss. \<bar>severity i * 2\<bar> < overflow_threshold"
  then show "\<exists>r. calculateSquatScore m iss = Finite r \<and> 0 \<le> r \<and> r \<le> 100"
    and "\<exists>r. calculateSittingScore m iss = Finite r \<and> 0 \<le> r \<and> r \<le> 100"
    by (rule calculateSquatScore_range, rule calculateSittingScore_range)
next
  show "calculateSquatScore m iss = NaN \<or>
      (\<exists>r. calculateSquatScore m iss = Finite r \<and> 0 \<le> r \<and> r \<le> 100)"
    by (rule calculateSquatScore_cases)
  show "calculateSittingScore m iss = NaN \<or>
      (\<exists>r. calculateSittingScore m iss = Finite r \<and> 0 \<le> r \<and> r \<le> 100)"
    by (rule calculateSittingScore_cases)
next
  obtain a where
    "analyzeSquatPosture this landmarks frameNumber w = Inr (a, storeFrame this (calculateSquatMetrics w))"
    and "0 \<le> overallScore a" "overallScore a \<le> 100"
    using analyzeSquatPosture_result [of this w landmarks frameNumber] by blast
  then show "\<exists>a e. analyzeSquatPosture this landmarks frameNumber w = Inr (a, e) \<and>
           0 \<le> overallScore a \<and> overallScore a \<le> 100"
    by blast
next
  obtain a where
    "analyzeSittingPosture this landmarks frameNumber w = Inr (a, storeFrame this (calculateSittingMetrics w))"
    and "0 \<le> overallScore a" "overallScore a \<le> 100"
    using analyzeSittingPosture_result [of this w landmarks frameNumber] by blast
  then show "\<exists>a e. analyzeSittingPosture this landmarks frameNumber w = Inr (a, e) \<and>
           0 \<le> overallScore a \<and> overallScore a \<le> 100"
    by blast
qed

text \<open>
  An issue of severity 1000 drives the sum far below 0, one of severity \<open>- 1000\<close> far
  above 100; the scores are 0 and 100.  The first analysis of a new engine at rest
  scores 100.
\<close>

theorem overallScore_in_range_witness:
  "\<bar>severity (issue_of_severity 1000) * 2\<bar> < overflow_threshold \<and>
   calculateSquatScore metrics_rest [issue_of_severity 1000] = Finite 0 \<and>
   (\<exists>r. calculateSittingScore metrics_rest [issue_of_severity 1000] = Finite r \<and> 0 \<le> r \<and> r \<le> 100) \<and>
   calculateSittingScore metrics_rest [issue_of_severity (- 1000)] = Finite 100 \<and>
   (\<exists>a e. analyzeSquatPosture new_engine ([] :: unit list) 1 env_rest = Inr (a, e) \<and>
           0 \<le> overallScore a \<and> overallScore a \<le> 100)"
proof -
  have hyp: "\<forall>i \<in> set [issue_of_severity 1000]. \<bar>severity i * 2\<bar> < overflow_threshold"
    using overflow_threshold_large by (simp add: issue_of_severity_def)
  note range = overallScore_in_range
    [of "[issue_of_severity 1000]" metrics_rest new_engine "[] :: unit list" 1 env_rest]
  have low: "calculateSquatScore metrics_rest [issue_of_severity 1000] = Finite 0"
    by (simp add: calculateSquatScore_def metrics_rest_def issue_of_severity_def Let_def
        js_round_small)
  have high: "calculateSittingScore metrics_rest [issue_of_severity (- 1000)] = Finite 100"
    by (simp add: calculateSittingScore_def metrics_rest_def issue_of_severity_def Let_def
        js_round_small)
  have "\<bar>severity (issue_of_severity 1000) * 2\<bar> < overflow_threshold"
    using hyp by simp
  with range hyp low high show ?thesis by blast
qed

subsection \<open>The verdict\<close>

text \<open>
  Claim C2.  In every analysis that \<open>analyzeSquatPosture\<close> or \<open>analyzeSittingPosture\<close>
  returns, \<open>isGoodPosture\<close> is true if and only if no issue of the list has type
  critical and \<open>overallScore\<close> is greater than 70.  In particular an analysis with a
  critical issue is never good, however high its score.
\<close>

theorem isGoodPosture_iff:
  "(\<exists>a e. analyzeSquatPosture this landmarks frameNumber w = Inr (a, e) \<and>
      (isGoodPosture a \<longleftrightarrow> (\<forall>i \<in> set (issues a). type i \<noteq> Critical) \<and> overallScore a > 70) \<and>
      ((\<exists>i \<in> set (issues a). type i = Critical) \<longrightarrow> \<not> isGoodPosture a)) \<and>
   (\<exists>a e. analyzeSittingPosture this landmarks frameNumber w = Inr (a, e) \<and>
      (isGoodPosture a \<longleftrightarrow> (\<forall>i \<in> set (issues a). type i \<noteq> Critical) \<and> overallScore a > 70) \<and>
      ((\<exists>i \<in> set (issues a). type i = Critical) \<longrightarrow> \<not> isGoodPosture a))"
proof -
  have no_critical:
    "(length (filter (\<lambda>i. type i = Critical) iss) = 0) = (\<forall>i \<in> set iss. type i \<noteq> Critical)"
    for iss :: "PostureIssue list"
    by (simp add: filter_empty_conv)
  obtain a where a:
    "analyzeSquatPosture this landmarks frameNumber w = Inr (a, storeFrame this (calculateSquatMetrics w))"
    "isGoodPosture a = (length (filter (\<lambda>i. type i = Critical) (issues a)) = 0 \<and> overallScore a > 70)"
    using analyzeSquatPosture_result [of this w landmarks frameNumber] by blast
  obtain b where b:
    "analyzeSittingPosture this landmarks frameNumber w = Inr (b, storeFrame this (calculateSittingMetrics w))"
    "isGoodPosture b = (length (filter (\<lambda>i. type i = Critical) (issues b)) = 0 \<and> overallScore b > 70)"
    using analyzeSittingPosture_result [of this w landmarks frameNumber] by blast
  from a(2) have
    "(isGoodPosture a \<longleftrightarrow> (\<forall>i \<in> set (issues a). type i \<noteq> Critical) \<and> overallScore a > 70) \<and>
      ((\<exists>i \<in> set (issues a). type i = Critical) \<longrightarrow> \<not> isGoodPosture a)"
    unfolding no_critical by blast
  moreover from b(2) have
    "(isGoodPosture b \<longleftrightarrow> (\<forall>i \<in> set (issues b). type i \<noteq> Critical) \<and> overallScore b > 70) \<and>
      ((\<exists>i \<in> set (issues b). type i = Critical) \<longrightarrow> \<not> isGoodPosture b)"
    unfolding no_critical by blast
  ultimately show ?thesis using a(1) b(1) by blast
qed

text \<open>
  At the peak of the squat cycle the first analysis of a new engine scores 91 and holds
  the critical knee issue: it is not good posture.
\<close>

theorem isGoodPosture_iff_witness:
  "\<exists>a e. analyzeSquatPosture new_engine ([] :: unit list) 1 env_peak = Inr (a, e) \<and>
      overallScore a = 91 \<and> (\<exists>i \<in> set (issues a). type i = Critical) \<and> \<not> isGoodPosture a"
proof -
  obtain a e where a: "analyzeSquatPosture new_engine ([] :: unit list) 1 env_peak = Inr (a, e)"
    and verdict: "(\<exists>i \<in> set (issues a). type i = Critical) \<longrightarrow> \<not> isGoodPosture a"
    using isGoodPosture_iff [of new_engine "[] :: unit list" 1 env_peak] by blast
  from a have "overallScore a = 91" and "issues a = fst (squatRules env_peak metrics_peak (1 / 2))"
    by (auto simp: analyzeSquatPosture_peak)
  then have "overallScore a = 91 \<and> (\<exists>i \<in> set (issues a). type i = Critical)"
    by (simp add: squatRules_peak)
  with a verdict show ?thesis by blast
qed

subsection \<open>The stability estimator\<close>

text \<open>
  Claim C3, as stated: the stability estimator returns exactly 0.5 when the frame
  history holds fewer than 2 samples; otherwise it returns
  \<open>clamp (1 - avgVariance * 10) 0 1\<close>, where \<open>avgVariance\<close> is the arithmetic mean of the
  sample variances of the fields \<open>backCurvature\<close>, \<open>shoulderAlignment\<close> and
  \<open>overallStability\<close> over the stored history.  \<open>calculateVariance\<close> divides by
  \<open>values.length\<close>, not by one less: on the history of a call at rest followed by a call
  at the peak of the squat cycle (\<open>backCurvature\<close> 0.08 and 0.4, the two other fields
  constant) the code returns \<open>1 - 0.0256 / 3 * 10 = 343 / 375\<close>, and the estimator with
  the sample variance gives \<open>1 - 0.0512 / 3 * 10 = 311 / 375\<close>.
\<close>

theorem sample_variance_counterexample:
  "calculateStability two_frames = Inr (343 / 375) \<and>
   spec_stability (frameHistory two_frames) = 311 / 375 \<and>
   calculateStability two_frames \<noteq> Inr (spec_stability (frameHistory two_frames))"
proof -
  have code: "calculateStability two_frames = Inr (343 / 375)"
    by (simp add: calculateStability_def calculateVariance_def js_div_def reduce_add_def
        two_frames_def metrics_rest_def metrics_peak_def Let_def power2_eq_square)
  have spec: "spec_stability (frameHistory two_frames) = 311 / 375"
    by (simp add: spec_stability_def sample_variance_def spec_mean_def spec_clamp_def
        two_frames_def metrics_rest_def metrics_peak_def power2_eq_square)
  from code spec show ?thesis by simp
qed

text \<open>
  Claim C3, amended: the stability estimator returns exactly 0.5 when the frame history
  holds fewer than 2 samples; otherwise it returns \<open>clamp (1 - avgVariance * 10) 0 1\<close>,
  where \<open>avgVariance\<close> is the arithmetic mean of the population variances (the mean of
  the squared deviations from the mean, with the number of samples as divisor) of the
  fields \<open>backCurvature\<close>, \<open>shoulderAlignment\<close> and \<open>overallStability\<close> over the stored
  history.
\<close>

theorem calculateStability_population_variance:
  "calculateStability this =
     Inr (if length (frameHistory this) < 2 then 0.5
          else spec_clamp
                 (1 - (population_variance (map backCurvature (frameHistory this))
                       + population_variance (map shoulderAlignment (frameHistory this))
                       + population_variance (map overallStability (frameHistory this))) / 3 * 10)
                 0 1)"
  using calculateStability_short [of this] calculateStability_long [of this]
  by (cases "length (frameHistory this) < 2") simp_all

text \<open>An empty history gives 0.5, the history of two frames \<open>343 / 375\<close>.\<close>

theorem calculateStability_population_variance_witness:
  "calculateStability new_engine = Inr 0.5 \<and> calculateStability two_frames = Inr (343 / 375)"
  using calculateStability_population_variance [of new_engine]
    calculateStability_population_variance [of two_frames]
  by (simp add: new_engine_def two_frames_def metrics_rest_def metrics_peak_def
      population_variance_def spec_mean_def spec_clamp_def power2_eq_square)

subsection \<open>The confidence estimator\<close>

text \<open>
  Claim C4, as stated: for every frame number and every stability value,
  \<open>calculateConfidence\<close> returns \<open>(min 1 (frameNumber / 10) * 0.4 + stability * 0.6) * 0.9
  + 0.1\<close>, and the result lies in the range from 0.1 to 1.  The formula is what the code
  computes, but the range fails: the frame confidence has no lower clamp, and for
  stability 0.5 and frame number \<open>- 10\<close> the result is 0.01.
\<close>

theorem calculateConfidence_range_counterexample:
  "\<not> (0.1 \<le> calculateConfidence 0.5 (- 10) \<and> calculateConfidence 0.5 (- 10) \<le> 1)"
  by (simp add: calculateConfidence_formula)

text \<open>
  Claim C4, amended: for every frame number and every stability value,
  \<open>calculateConfidence\<close> returns \<open>(min 1 (frameNumber / 10) * 0.4 + stability * 0.6) * 0.9
  + 0.1\<close>; the result lies in the range from 0.1 to 1 whenever the frame number is not
  negative and the stability lies between 0 and 1.
\<close>

theorem calculateConfidence_range:
  "calculateConfidence stability frameNumber =
     (min 1 (frameNumber / 10) * 0.4 + stability * 0.6) * 0.9 + 0.1 \<and>
   (0 \<le> frameNumber \<and> 0 \<le> stability \<and> stability \<le> 1 \<longrightarrow>
      0.1 \<le> calculateConfidence stability frameNumber \<and> calculateConfidence stability frameNumber \<le> 1)"
proof (intro conjI impI)
  show "calculateConfidence stability frameNumber =
     (min 1 (frameNumber / 10) * 0.4 + stability * 0.6) * 0.9 + 0.1"
    by (rule calculateConfidence_formula)
next
  assume h: "0 \<le> frameNumber \<and> 0 \<le> stability \<and> stability \<le> 1"
  define fc where "fc = min 1 (frameNumber / 10)"
  from h have fc: "0 \<le> fc" "fc \<le> 1" by (simp_all add: fc_def)
  have eq: "calculateConfidence stability frameNumber = (fc * 0.4 + stability * 0.6) * 0.9 + 0.1"
    by (simp add: calculateConfidence_formula fc_def)
  define x where "x = fc * 0.4 + stability * 0.6"
  have x: "0 \<le> x" "x \<le> 1" using fc h unfolding x_def by simp_all
  show "0.1 \<le> calculateConfidence stability frameNumber"
    using x unfolding eq x_def [symmetric] by simp
  show "calculateConfidence stability frameNumber \<le> 1"
    using x unfolding eq x_def [symmetric] by simp
qed

text \<open>Both ends of the range are reached: at frame 0 with stability 0, and from frame 10 on with stability 1.\<close>

theorem calculateConfidence_range_witness:
  "(0 \<le> (25 :: real) \<and> (0 :: real) \<le> 1 \<and> (1 :: real) \<le> 1) \<and>
   calculateConfidence 1 25 = 1 \<and> calculateConfidence 0 0 = 0.1 \<and>
   0.1 \<le> calculateConfidence 1 25 \<and> calculateConfidence 1 25 \<le> 1"
  using calculateConfidence_range [of 1 25] calculateConfidence_range [of 0 0]
  by simp

text \<open>
  Claim C5.  For every fixed stability value, \<open>calculateConfidence\<close> is monotonically
  non-decreasing in the frame number.
\<close>

theorem calculateConfidence_mono:
  assumes "frameNumber1 \<le> frameNumber2"
  shows "calculateConfidence stability frameNumber1 \<le> calculateConfidence stability frameNumber2"
proof -
  from assms have "min 1 (frameNumber1 / 10) \<le> min 1 (frameNumber2 / 10)"
    by (simp add: min_def)
  then show ?thesis by (simp add: calculateConfidence_formula)
qed

theorem calculateConfidence_mono_witness:
  "(3 :: real) \<le> 7 \<and> calculateConfidence 0.5 3 \<le> calculateConfidence 0.5 7 \<and>
   calculateConfidence 0.5 3 < calculateConfidence 0.5 7"
proof -
  have le: "(3 :: real) \<le> 7" by simp
  have "calculateConfidence 0.5 3 \<noteq> calculateConfidence 0.5 7"
    by (simp add: calculateConfidence_formula)
  with le calculateConfidence_mono [OF le, of "0.5"] show ?thesis by simp
qed

subsection \<open>The knee rule of the squat mode\<close>

text \<open>
  Claim C6.  The critical knee-valgus rule of the squat mode uses a strict inequality:
  a metrics vector whose \<open>kneeTracking\<close> is exactly 0.15 does not produce the critical
  issue of severity 9, and one whose \<open>kneeTracking\<close> is 0.1500001 does.  The rule is
  the first to run, so the issue it pushes carries the second reading of the clock.
\<close>

theorem knee_valgus_boundary:
  "filter (\<lambda>i. type i = Critical \<and> severity i = 9)
     (fst (squatRules w (m\<lparr>kneeTracking := 0.15\<rparr>) stability)) = [] \<and>
   filter (\<lambda>i. type i = Critical \<and> severity i = 9)
     (fst (squatRules w (m\<lparr>kneeTracking := 0.1500001\<rparr>) stability)) =
     [\<lparr>type = Critical,
       message = ''DANGER: Knee valgus detected - high injury risk!'',
       severity = 9,
       recommendation = ''Keep knees aligned over toes. Strengthen glutes and hip abductors.'',
       timestamp = date_now w 1\<rparr>]"
proof
  show "filter (\<lambda>i. type i = Critical \<and> severity i = 9)
     (fst (squatRules w (m\<lparr>kneeTracking := 0.15\<rparr>) stability)) = []"
    by (simp add: squatRules_def Let_def push_simps)
  show "filter (\<lambda>i. type i = Critical \<and> severity i = 9)
     (fst (squatRules w (m\<lparr>kneeTracking := 0.1500001\<rparr>) stability)) =
     [\<lparr>type = Critical,
       message = ''DANGER: Knee valgus detected - high injury risk!'',
       severity = 9,
       recommendation = ''Keep knees aligned over toes. Strengthen glutes and hip abductors.'',
       timestamp = date_now w 1\<rparr>]"
    by (simp add: squatRules_def Let_def push_simps)
qed

theorem knee_valgus_boundary_witness:
  "map type (fst (squatRules env_rest (metrics_rest\<lparr>kneeTracking := 0.15\<rparr>) (1 / 2))) = [Warning, Minor] \<and>
   filter (\<lambda>i. type i = Critical \<and> severity i = 9)
     (fst (squatRules env_rest (metrics_rest\<lparr>kneeTracking := 0.15\<rparr>) (1 / 2))) = [] \<and>
   map message (filter (\<lambda>i. type i = Critical \<and> severity i = 9)
     (fst (squatRules env_rest (metrics_rest\<lparr>kneeTracking := 0.1500001\<rparr>) (1 / 2)))) =
     [''DANGER: Knee valgus detected - high injury risk!'']"
proof -
  have "map type (fst (squatRules env_rest (metrics_rest\<lparr>kneeTracking := 0.15\<rparr>) (1 / 2))) = [Warning, Minor]"
    by (simp add: squatRules_def metrics_rest_def Let_def push_simps)
  with knee_valgus_boundary [of env_rest metrics_rest "1 / 2"] show ?thesis by simp
qed

subsection \<open>What the metrics depend on\<close>

lemma metrics_of_analyzeSquatPosture:
  "metrics_of (analyzeSquatPosture this landmarks frameNumber w) = Some (calculateSquatMetrics w)"
proof -
  obtain a where
    "analyzeSquatPosture this landmarks frameNumber w = Inr (a, storeFrame this (calculateSquatMetrics w))"
    and "metrics a = calculateSquatMetrics w"
    using analyzeSquatPosture_result [of this w landmarks frameNumber] by blast
  then show ?thesis by (simp add: metrics_of_def)
qed

lemma metrics_of_analyzeSittingPosture:
  "metrics_of (analyzeSittingPosture this landmarks frameNumber w) = Some (calculateSittingMetrics w)"
proof -
  obtain a where
    "analyzeSittingPosture this landmarks frameNumber w = Inr (a, storeFrame this (calculateSittingMetrics w))"
    and "metrics a = calculateSittingMetrics w"
    using analyzeSittingPosture_result [of this w landmarks frameNumber] by blast
  then show ?thesis by (simp add: metrics_of_def)
qed

text \<open>
  Claim C7, as stated: the metrics derivation is a pure function of the body-position
  observation alone, so that two derivations from the same observation give the same
  metrics vector whatever the clock and the random generator do.  The code derives the
  metrics from \<open>Date.now()\<close> and \<open>Math.random()\<close> and never reads the observation: two
  calls with the same landmarks, the same frame number and the same engine, one with
  the random draw 0.5 and one with the random draw 0, give different vectors.
\<close>

theorem metrics_not_pure_counterexample:
  "metrics_of (analyzeSquatPosture new_engine [()] 1 env_rest) \<noteq>
   metrics_of (analyzeSquatPosture new_engine [()] 1 (env_rest\<lparr>math_random := 0\<rparr>))"
proof -
  have "shoulderAlignment (calculateSquatMetrics env_rest) = 0"
    by (simp add: calculateSquatMetrics_rest metrics_rest_def)
  moreover have "shoulderAlignment (calculateSquatMetrics (env_rest\<lparr>math_random := 0\<rparr>)) = 1 / 100"
    by (simp add: calculateSquatMetrics_def env_rest_def Let_def)
  ultimately have "calculateSquatMetrics env_rest \<noteq> calculateSquatMetrics (env_rest\<lparr>math_random := 0\<rparr>)"
    by auto
  then show ?thesis by (simp add: metrics_of_analyzeSquatPosture)
qed

text \<open>
  Claim C7, amended: the metrics derivation is a function of the first clock reading and
  of the random draw of the call alone.  Two calls that agree on these two values
  produce the same metrics vector, whatever their landmarks, their frame numbers and
  the histories of their engines.
\<close>

theorem metrics_from_clock_and_random:
  assumes "date_now w 0 = date_now w' 0" and "math_random w = math_random w'"
  shows "metrics_of (analyzeSquatPosture this landmarks frameNumber w) =
           metrics_of (analyzeSquatPosture this' landmarks' frameNumber' w') \<and>
         metrics_of (analyzeSittingPosture this landmarks frameNumber w) =
           metrics_of (analyzeSittingPosture this' landmarks' frameNumber' w') \<and>
         metrics_of (analyzeSquatPosture this landmarks frameNumber w) \<noteq> None \<and>
         metrics_of (analyzeSittingPosture this landmarks frameNumber w) \<noteq> None"
proof -
  from assms have "calculateSquatMetrics w = calculateSquatMetrics w'"
    by (simp add: calculateSquatMetrics_def)
  moreover from assms have "calculateSittingMetrics w = calculateSittingMetrics w'"
    by (simp add: calculateSittingMetrics_def)
  ultimately show ?thesis
    by (simp add: metrics_of_analyzeSquatPosture metrics_of_analyzeSittingPosture)
qed

text \<open>
  A second call on an engine that already holds a frame, with other landmarks, another
  frame number and other later clock readings, derives the metrics of the first call.
\<close>

theorem metrics_from_clock_and_random_witness:
  "metrics_of (analyzeSquatPosture new_engine ([] :: unit list) 1 env_rest) =
     metrics_of (analyzeSquatPosture \<lparr>frameHistory = [metrics_peak], stabilityWindow = 5\<rparr> [()] 7
        (env_rest\<lparr>date_now := (\<lambda>k. if k = 0 then 0 else 99)\<rparr>)) \<and>
   metrics_of (analyzeSquatPosture new_engine ([] :: unit list) 1 env_rest) = Some metrics_rest"
proof -
  have "date_now env_rest 0 = date_now (env_rest\<lparr>date_now := (\<lambda>k. if k = 0 then 0 else 99)\<rparr>) 0"
    and "math_random env_rest = math_random (env_rest\<lparr>date_now := (\<lambda>k. if k = 0 then 0 else 99)\<rparr>)"
    by (simp_all add: env_rest_def)
  from metrics_from_clock_and_random [OF this,
      of new_engine "[] :: unit list" 1 "\<lparr>frameHistory = [metrics_peak], stabilityWindow = 5\<rparr>" "[()]" 7]
  show ?thesis
    by (simp add: metrics_of_analyzeSquatPosture calculateSquatMetrics_rest)
qed

subsection \<open>Missing landmarks\<close>

text \<open>
  Claim C8, as stated: when a landmark that the active mode requires is absent from the
  observation, the engine fails with an explicit error instead of returning a normal
  analysis.  The code has no error path and never reads the landmarks: with the empty
  landmarks array, where every landmark is absent, both methods return an analysis.
\<close>

theorem missing_landmarks_counterexample:
  "\<not> isl (analyzeSquatPosture new_engine ([] :: unit list) 1 env_rest) \<and>
   \<not> isl (analyzeSittingPosture new_engine ([] :: unit list) 1 env_rest) \<and>
   analyzeSquatPosture new_engine ([] :: unit list) 1 env_rest =
     Inr (\<lparr>isGoodPosture = True,
           overallScore = 100,
           issues = fst (squatRules env_rest metrics_rest (1 / 2)),
           metrics = metrics_rest,
           confidence = 203 / 500,
           recommendations = [''Practice bodyweight squats to improve depth'']\<rparr>,
          \<lparr>frameHistory = [metrics_rest], stabilityWindow = 5\<rparr>)"
proof -
  obtain a where
    "analyzeSittingPosture new_engine ([] :: unit list) 1 env_rest =
       Inr (a, storeFrame new_engine (calculateSittingMetrics env_rest))"
    using analyzeSittingPosture_result [of new_engine env_rest "[] :: unit list" 1] by blast
  then show ?thesis by (simp add: analyzeSquatPosture_rest)
qed

text \<open>
  Claim C8, amended: the engine has no missing-input error.  Both methods ignore the
  landmarks argument: whatever it holds, and also when required landmarks are absent
  from it, they return a normal analysis, the one they return for any other landmarks
  argument with the same engine, frame number and environment.
\<close>

theorem landmarks_ignored:
  "\<not> isl (analyzeSquatPosture this landmarks frameNumber w) \<and>
   \<not> isl (analyzeSittingPosture this landmarks frameNumber w) \<and>
   analyzeSquatPosture this landmarks frameNumber w = analyzeSquatPosture this landmarks' frameNumber w \<and>
   analyzeSittingPosture this landmarks frameNumber w = analyzeSittingPosture this landmarks' frameNumber w"
proof (intro conjI)
  obtain a where
    "analyzeSquatPosture this landmarks frameNumber w = Inr (a, storeFrame this (calculateSquatMetrics w))"
    using analyzeSquatPosture_result [of this w landmarks frameNumber] by blast
  then show "\<not> isl (analyzeSquatPosture this landmarks frameNumber w)" by simp
next
  obtain a where
    "analyzeSittingPosture this landmarks frameNumber w = Inr (a, storeFrame this (calculateSittingMetrics w))"
    using analyzeSittingPosture_result [of this w landmarks frameNumber] by blast
  then show "\<not> isl (analyzeSittingPosture this landmarks frameNumber w)" by simp
next
  show "analyzeSquatPosture this landmarks frameNumber w = analyzeSquatPosture this landmarks' frameNumber w"
    by (simp add: analyzeSquatPosture_def)
next
  show "analyzeSittingPosture this landmarks frameNumber w = analyzeSittingPosture this landmarks' frameNumber w"
    by (simp add: analyzeSittingPosture_def)
qed

theorem landmarks_ignored_witness:
  "\<not> isl (analyzeSquatPosture new_engine ([] :: unit list) 1 env_peak) \<and>
   analyzeSquatPosture new_engine ([] :: unit list) 1 env_peak =
     analyzeSquatPosture new_engine [(), (), ()] 1 env_peak \<and>
   analyzeSittingPosture new_engine ([] :: unit list) 1 env_peak =
     analyzeSittingPosture new_engine [(), (), ()] 1 env_peak"
  using landmarks_ignored [of new_engine "[] :: unit list" 1 env_peak "[(), (), ()]"]
  by blast

subsection \<open>The frame history\<close>

lemma shift_drop: "shift xs = drop 1 xs"
  by (cases xs) (simp_all add: shift_def)

lemma storeFrame_window:
  assumes "stabilityWindow this = 5" and "length (frameHistory this) \<le> 5"
  shows "stabilityWindow (storeFrame this m) = 5"
    and "frameHistory (storeFrame this m) =
           (if length (frameHistory this) < 5 then frameHistory this @ [m]
            else tl (frameHistory this) @ [m])"
    and "length (frameHistory (storeFrame this m)) \<le> 5"
proof -
  show "stabilityWindow (storeFrame this m) = 5"
    using assms by (simp add: storeFrame_def Let_def)
  show hist: "frameHistory (storeFrame this m) =
           (if length (frameHistory this) < 5 then frameHistory this @ [m]
            else tl (frameHistory this) @ [m])"
  proof (cases "length (frameHistory this) < 5")
    case True
    with assms show ?thesis by (simp add: storeFrame_def Let_def push_def)
  next
    case False
    with assms have "length (frameHistory this) = 5" by simp
    then have "frameHistory this \<noteq> []" by auto
    with assms False show ?thesis
      by (simp add: storeFrame_def Let_def push_def shift_drop drop_Suc tl_append2)
  qed
  show "length (frameHistory (storeFrame this m)) \<le> 5"
    unfolding hist using assms by auto
qed

lemma storeFrame_drop:
  assumes "stabilityWindow this = 5" and "length (frameHistory this) \<le> 5"
  shows "frameHistory (storeFrame this m) =
           drop (length (frameHistory this @ [m]) - 5) (frameHistory this @ [m])"
proof (cases "length (frameHistory this) < 5")
  case True
  with assms show ?thesis by (simp add: storeFrame_window(2))
next
  case False
  with assms have len: "length (frameHistory this) = 5" by simp
  then have "frameHistory this \<noteq> []" by auto
  with assms len show ?thesis
    by (simp add: storeFrame_window(2) drop_Suc tl_append2)
qed

lemma call_engine_storeFrame: "call_engine this c = Inr (storeFrame this (derived_metrics c))"
proof (cases c)
  case (AnalyzeSquat landmarks frameNumber w)
  obtain a where
    "analyzeSquatPosture this landmarks frameNumber w = Inr (a, storeFrame this (calculateSquatMetrics w))"
    using analyzeSquatPosture_result [of this w landmarks frameNumber] by blast
  with AnalyzeSquat show ?thesis by simp
next
  case (AnalyzeSitting landmarks frameNumber w)
  obtain a where
    "analyzeSittingPosture this landmarks frameNumber w = Inr (a, storeFrame this (calculateSittingMetrics w))"
    using analyzeSittingPosture_result [of this w landmarks frameNumber] by blast
  with AnalyzeSitting show ?thesis by simp
qed

lemma drop_window:
  fixes h ms :: "'a list"
  assumes "length h \<le> 5"
  shows "(let h' = drop (length (h @ [m]) - 5) (h @ [m]) in
            drop (length (h' @ ms) - 5) (h' @ ms)) =
         drop (length (h @ m # ms) - 5) (h @ m # ms)"
proof -
  define k where "k = length (h @ [m]) - 5"
  have k: "k \<le> length (h @ [m])" by (simp add: k_def)
  have "drop k ((h @ [m]) @ ms) = drop k (h @ [m]) @ drop (k - length (h @ [m])) ms"
    by (rule drop_append)
  with k have "drop k (h @ [m]) @ ms = drop k (h @ m # ms)" by simp
  moreover have "length (drop k (h @ [m]) @ ms) - 5 + k = length (h @ m # ms) - 5"
    using assms by (simp add: k_def)
  ultimately have "drop (length (drop k (h @ [m]) @ ms) - 5) (drop k (h @ [m]) @ ms) =
      drop (length (h @ m # ms) - 5) (h @ m # ms)"
    by (simp del: drop_append append.simps length_append length_drop)
  then show ?thesis by (simp only: Let_def k_def)
qed

lemma run_window:
  assumes "stabilityWindow this = 5" and "length (frameHistory this) \<le> 5"
  shows "\<exists>e. run this cs = Inr e \<and> stabilityWindow e = 5 \<and>
           frameHistory e =
             drop (length (frameHistory this @ map derived_metrics cs) - 5)
               (frameHistory this @ map derived_metrics cs)"
  using assms
proof (induction cs arbitrary: this)
  case Nil
  then show ?case by simp
next
  case (Cons c cs)
  let ?m = "derived_metrics c"
  let ?this' = "storeFrame this ?m"
  have w: "stabilityWindow ?this' = 5" and l: "length (frameHistory ?this') \<le> 5"
    using Cons.prems by (rule storeFrame_window(1), rule storeFrame_window(3))
  from Cons.IH [OF w l] obtain e where e: "run ?this' cs = Inr e" "stabilityWindow e = 5"
    "frameHistory e =
       drop (length (frameHistory ?this' @ map derived_metrics cs) - 5)
         (frameHistory ?this' @ map derived_metrics cs)"
    by blast
  have "frameHistory e =
      drop (length (frameHistory this @ ?m # map derived_metrics cs) - 5)
        (frameHistory this @ ?m # map derived_metrics cs)"
    using drop_window [OF Cons.prems(2), of ?m "map derived_metrics cs"]
    unfolding e(3) storeFrame_drop [OF Cons.prems] Let_def .
  with e(1,2) show ?case by (simp add: call_engine_storeFrame)
qed

text \<open>
  Claim C9.  The frame history is a bounded FIFO of window size 5 that every operation
  of the engine preserves.  After any sequence of calls of \<open>analyzeSquatPosture\<close> and
  \<open>analyzeSittingPosture\<close> on a new engine the history holds at most 5 entries: the
  metrics vectors that the last 5 calls derived, in the order of the calls.  Each call
  appends the vector it derives, and when the history is full the oldest entry is the
  one that leaves.
\<close>

theorem frameHistory_bounded_fifo:
  "(\<exists>e. run new_engine cs = Inr e \<and> stabilityWindow e = 5 \<and>
        length (frameHistory e) \<le> 5 \<and>
        frameHistory e = drop (length cs - 5) (map derived_metrics cs)) \<and>
   (stabilityWindow this = 5 \<and> length (frameHistory this) \<le> 5 \<longrightarrow>
      (\<exists>a e. analyzeSquatPosture this landmarks frameNumber w = Inr (a, e) \<and>
         metrics a = calculateSquatMetrics w \<and>
         frameHistory e =
           (if length (frameHistory this) < 5 then frameHistory this @ [metrics a]
            else tl (frameHistory this) @ [metrics a]) \<and>
         length (frameHistory e) \<le> 5 \<and> stabilityWindow e = 5) \<and>
      (\<exists>a e. analyzeSittingPosture this landmarks frameNumber w = Inr (a, e) \<and>
         metrics a = calculateSittingMetrics w \<and>
         frameHistory e =
           (if length (frameHistory this) < 5 then frameHistory this @ [metrics a]
            else tl (frameHistory this) @ [metrics a]) \<and>
         length (frameHistory e) \<le> 5 \<and> stabilityWindow e = 5))"
proof (intro conjI impI)
  have "stabilityWindow new_engine = 5" "length (frameHistory new_engine) \<le> 5"
    by (simp_all add: new_engine_def)
  from run_window [OF this, of cs] obtain e where "run new_engine cs = Inr e" "stabilityWindow e = 5"
    "frameHistory e = drop (length cs - 5) (map derived_metrics cs)"
    by (auto simp: new_engine_def)
  then show "\<exists>e. run new_engine cs = Inr e \<and> stabilityWindow e = 5 \<and>
        length (frameHistory e) \<le> 5 \<and>
        frameHistory e = drop (length cs - 5) (map derived_metrics cs)"
    by auto
next
  assume inv: "stabilityWindow this = 5 \<and> length (frameHistory this) \<le> 5"
  obtain a where
    "analyzeSquatPosture this landmarks frameNumber w = Inr (a, storeFrame this (calculateSquatMetrics w))"
    and "metrics a = calculateSquatMetrics w"
    using analyzeSquatPosture_result [of this w landmarks frameNumber] by blast
  with inv show "\<exists>a e. analyzeSquatPosture this landmarks frameNumber w = Inr (a, e) \<and>
         metrics a = calculateSquatMetrics w \<and>
         frameHistory e =
           (if length (frameHistory this) < 5 then frameHistory this @ [metrics a]
            else tl (frameHistory this) @ [metrics a]) \<and>
         length (frameHistory e) \<le> 5 \<and> stabilityWindow e = 5"
    using storeFrame_window [of this "calculateSquatMetrics w"] by auto
next
  assume inv: "stabilityWindow this = 5 \<and> length (frameHistory this) \<le> 5"
  obtain a where
    "analyzeSittingPosture this landmarks frameNumber w = Inr (a, storeFrame this (calculateSittingMetrics w))"
    and "metrics a = calculateSittingMetrics w"
    using analyzeSittingPosture_result [of this w landmarks frameNumber] by blast
  with inv show "\<exists>a e. analyzeSittingPosture this landmarks frameNumber w = Inr (a, e) \<and>
         metrics a = calculateSittingMetrics w \<and>
         frameHistory e =
           (if length (frameHistory this) < 5 then frameHistory this @ [metrics a]
            else tl (frameHistory this) @ [metrics a]) \<and>
         length (frameHistory e) \<le> 5 \<and> stabilityWindow e = 5"
    using storeFrame_window [of this "calculateSittingMetrics w"] by auto
qed

text \<open>
  Of six calls the first is forgotten: the history holds the metrics of calls 2 to 6.
  A further call on the full engine drops its oldest entry and appends the new one.
\<close>

theorem frameHistory_bounded_fifo_witness:
  "(\<exists>e. run new_engine six_calls = Inr e \<and>
        frameHistory e = [metrics_peak, metrics_peak, metrics_rest, metrics_rest, metrics_peak]) \<and>
   (stabilityWindow full_engine = 5 \<and> length (frameHistory full_engine) \<le> 5) \<and>
   (\<exists>a e. analyzeSquatPosture full_engine ([] :: unit list) 6 env_peak = Inr (a, e) \<and>
        frameHistory e = [metrics_peak, metrics_peak, metrics_rest, metrics_rest, metrics_peak])"
proof -
  have inv: "stabilityWindow full_engine = 5 \<and> length (frameHistory full_engine) \<le> 5"
    by (simp add: full_engine_def)
  have six: "drop (length six_calls - 5) (map derived_metrics six_calls) =
      [metrics_peak, metrics_peak, metrics_rest, metrics_rest, metrics_peak]"
    by (simp add: six_calls_def calculateSquatMetrics_rest calculateSquatMetrics_peak)
  note fifo = frameHistory_bounded_fifo [of six_calls full_engine "[] :: unit list" 6 env_peak]
  from fifo obtain e where "run new_engine six_calls = Inr e"
    "frameHistory e = drop (length six_calls - 5) (map derived_metrics six_calls)"
    by blast
  then have first: "\<exists>e. run new_engine six_calls = Inr e \<and>
        frameHistory e = [metrics_peak, metrics_peak, metrics_rest, metrics_rest, metrics_peak]"
    by (simp add: six)
  from fifo inv obtain a e where "analyzeSquatPosture full_engine ([] :: unit list) 6 env_peak = Inr (a, e)"
    "metrics a = calculateSquatMetrics env_peak"
    "frameHistory e =
           (if length (frameHistory full_engine) < 5 then frameHistory full_engine @ [metrics a]
            else tl (frameHistory full_engine) @ [metrics a])"
    by blast
  then have "\<exists>a e. analyzeSquatPosture full_engine ([] :: unit list) 6 env_peak = Inr (a, e) \<and>
        frameHistory e = [metrics_peak, metrics_peak, metrics_rest, metrics_rest, metrics_peak]"
    by (simp add: full_engine_def calculateSquatMetrics_peak)
  with first inv show ?thesis by blast
qed

subsection \<open>Totality\<close>

text \<open>
  Claim C10.  For every input, whatever the landmarks array (the empty one included) and
  whatever the frame number (negative, zero or not an integer), and for every state of
  the engine, \<open>analyzeSquatPosture\<close> and \<open>analyzeSittingPosture\<close> return an analysis.
  The stability estimator returns a number in every state, and where it computes
  variances, on a history of at least 2 frames, each of them is a number.  The score and
  the confidence are arithmetic without division by a variable.
\<close>

theorem analyze_total:
  "(\<exists>a e. analyzeSquatPosture this landmarks frameNumber w = Inr (a, e)) \<and>
   (\<exists>a e. analyzeSittingPosture this landmarks frameNumber w = Inr (a, e)) \<and>
   (\<exists>s. calculateStability this = Inr s) \<and>
   (2 \<le> length (frameHistory this) \<longrightarrow>
      (\<exists>v. calculateVariance (map backCurvature (frameHistory this)) = Inr v) \<and>
      (\<exists>v. calculateVariance (map shoulderAlignment (frameHistory this)) = Inr v) \<and>
      (\<exists>v. calculateVariance (map overallStability (frameHistory this)) = Inr v))"
proof (intro conjI impI)
  show "\<exists>a e. analyzeSquatPosture this landmarks frameNumber w = Inr (a, e)"
    using analyzeSquatPosture_result [of this w landmarks frameNumber] by blast
  show "\<exists>a e. analyzeSittingPosture this landmarks frameNumber w = Inr (a, e)"
    using analyzeSittingPosture_result [of this w landmarks frameNumber] by blast
  show "\<exists>s. calculateStability this = Inr s"
    using calculateStability_range [of this] by blast
next
  assume "2 \<le> length (frameHistory this)"
  then have ne: "frameHistory this \<noteq> []" by auto
  from ne show "\<exists>v. calculateVariance (map backCurvature (frameHistory this)) = Inr v"
    by (simp add: calculateVariance_nonempty)
  from ne show "\<exists>v. calculateVariance (map shoulderAlignment (frameHistory this)) = Inr v"
    by (simp add: calculateVariance_nonempty)
  from ne show "\<exists>v. calculateVariance (map overallStability (frameHistory this)) = Inr v"
    by (simp add: calculateVariance_nonempty)
qed

text \<open>
  The full engine called with no landmarks and the frame number \<open>- 7 / 2\<close> returns an
  analysis, and the variances of its five frames are numbers.
\<close>

theorem analyze_total_witness:
  "2 \<le> length (frameHistory full_engine) \<and>
   (\<exists>a e. analyzeSquatPosture full_engine ([] :: unit list) (- 7 / 2) env_rest = Inr (a, e)) \<and>
   (\<exists>a e. analyzeSittingPosture full_engine ([] :: unit list) (- 7 / 2) env_rest = Inr (a, e)) \<and>
   (\<exists>v. calculateVariance (map backCurvature (frameHistory full_engine)) = Inr v)"
proof -
  have "2 \<le> length (frameHistory full_engine)" by (simp add: full_engine_def)
  with analyze_total [of full_engine "[] :: unit list" "- 7 / 2" env_rest] show ?thesis
    by blast
qed


end
